theory Spec2Isabelle
  imports Complex_Main "HOL-Library.AList"
begin

section \<open>The Bark notification client (bark\_sdk.py)\<close>

text \<open>
  A shallow embedding of \<^verbatim>\<open>src/python/bark_sdk.py\<close>: the exception classes, the
  constructor of \<^verbatim>\<open>BarkNotification\<close>, its methods \<^verbatim>\<open>send\<close> and \<^verbatim>\<open>send_post\<close>
  and the two private helpers \<^verbatim>\<open>_build_endpoint\<close> and \<^verbatim>\<open>_handle_response\<close>.

  Representation choices.
  \<^item> A Python \<^verbatim>\<open>str\<close> is the list of the bytes of its UTF-8 encoding: this is the
    form in which \<^verbatim>\<open>urllib.parse.quote\<close> reads it, and emptiness and equality of
    strings are the same on both forms. A \<^verbatim>\<open>str\<close> holding a lone surrogate has no
    UTF-8 encoding and is not represented; on it \<^verbatim>\<open>quote\<close> raises, which
    \<^verbatim>\<open>_build_endpoint\<close> reports as a \<^verbatim>\<open>BarkClientException\<close>.
  \<^item> An \<^verbatim>\<open>Optional[str]\<close> argument is a \<open>string option\<close>, an \<^verbatim>\<open>Optional[bool]\<close>
    a \<open>bool option\<close>; \<open>None\<close> is Python's \<^verbatim>\<open>None\<close>.
  \<^item> A raised exception is the left injection of a sum, a returned value the right one.
  \<^item> The network is a parameter: a function from the requests issued so far and the
    request at hand to either the exception that \<^verbatim>\<open>requests.get\<close> or
    \<^verbatim>\<open>requests.post\<close> raises or the response it returns. The requests a session
    has issued are recorded in its state.
\<close>

subsection \<open>Python values\<close>

text \<open>
  The values that \<^verbatim>\<open>json\<close> reads and writes, which are also the values of the
  keyword arguments. A float is represented by its exact rational value (infinities and
  NaN are not represented). A \<^verbatim>\<open>dict\<close> is an association list in insertion order,
  read with \<open>map_of\<close> and written with \<open>AList.update\<close>.
\<close>

datatype pyval =
    PNone
  | PBool bool
  | PInt int
  | PFloat rat
  | PStr string
  | PList "pyval list"
  | PDict "(string \<times> pyval) list"

text \<open>Truth value of an optional string (\<^verbatim>\<open>if title:\<close>) and of an optional bool.\<close>

definition truthy :: "string option \<Rightarrow> bool" where
  "truthy v = (case v of None \<Rightarrow> False | Some s \<Rightarrow> s \<noteq> [])"

definition truthy_bool :: "bool option \<Rightarrow> bool" where
  "truthy_bool v = (case v of None \<Rightarrow> False | Some b \<Rightarrow> b)"

text \<open>The string held by an optional string; read only where the value is truthy.\<close>

definition text_of :: "string option \<Rightarrow> string" where
  "text_of v = (case v of None \<Rightarrow> [] | Some s \<Rightarrow> s)"

text \<open>
  Python's \<^verbatim>\<open>v == n\<close> for an int \<open>n\<close>: numbers compare by value (\<^verbatim>\<open>True\<close> is 1,
  \<^verbatim>\<open>200.0 == 200\<close>), every other value differs from an int.
\<close>

fun py_eq_int :: "pyval \<Rightarrow> int \<Rightarrow> bool" where
  "py_eq_int (PInt i) n = (i = n)"
| "py_eq_int (PBool b) n = ((if b then 1 else 0) = n)"
| "py_eq_int (PFloat q) n = (q = of_int n)"
| "py_eq_int v n = False"

text \<open>\<^verbatim>\<open>d.get(k)\<close> and \<^verbatim>\<open>d.get(k, default)\<close> on a dict.\<close>

definition dict_get_default :: "(string \<times> pyval) list \<Rightarrow> string \<Rightarrow> pyval \<Rightarrow> pyval" where
  "dict_get_default d k dflt = (case map_of d k of None \<Rightarrow> dflt | Some v \<Rightarrow> v)"

definition dict_get :: "(string \<times> pyval) list \<Rightarrow> string \<Rightarrow> pyval" where
  "dict_get d k = dict_get_default d k PNone"

text \<open>
  A value inside an f-string: a \<^verbatim>\<open>str\<close> is inserted as it is; for any other value
  Python inserts \<^verbatim>\<open>str(v)\<close>, which is left as the parameter \<open>fmt\<close>.
\<close>

definition format_value :: "(pyval \<Rightarrow> string) \<Rightarrow> pyval \<Rightarrow> string" where
  "format_value fmt v = (case v of PStr s \<Rightarrow> s | _ \<Rightarrow> fmt v)"

subsection \<open>urllib.parse.quote\<close>

text \<open>
  The standard library's \<^verbatim>\<open>quote(string, safe='/')\<close>: the string is encoded as
  UTF-8; a byte that is an ASCII letter, a digit, one of \<^verbatim>\<open>_.-~\<close> or a character of
  \<open>safe\<close> is kept, every other byte \<open>b\<close> becomes \<^verbatim>\<open>'%{:02X}'.format(b)\<close>
  (the tilde is kept from Python 3.7 on). The source calls it with one argument, so
  \<open>safe\<close> has its default \<^verbatim>\<open>'/'\<close>.
\<close>

definition always_safe :: string where
  "always_safe = ''ABCDEFGHIJKLMNOPQRSTUVWXYZabcdefghijklmnopqrstuvwxyz0123456789_.-~''"

definition hex_digit :: "nat \<Rightarrow> char" where
  "hex_digit n = ''0123456789ABCDEF'' ! (n mod 16)"

definition quote_byte :: "string \<Rightarrow> char \<Rightarrow> string" where
  "quote_byte safe c =
     (if c \<in> set always_safe \<or> c \<in> set safe then [c]
      else [CHR ''%'', hex_digit (of_char c div 16), hex_digit (of_char c)])"

definition quote_from_bytes :: "string \<Rightarrow> string \<Rightarrow> string" where
  "quote_from_bytes bs safe = concat (map (quote_byte safe) bs)"

definition quote :: "string \<Rightarrow> string" where
  "quote s = quote_from_bytes s ''/''"

subsection \<open>Exceptions\<close>

text \<open>
  \<^verbatim>\<open>BarkException(message, status_code=None, response=None)\<close> and its three
  subclasses, which inherit the constructor. \<^verbatim>\<open>AttributeError\<close>, \<^verbatim>\<open>ValueError\<close> and
  \<^verbatim>\<open>TypeError\<close> are Python's own, \<^verbatim>\<open>RequestException\<close> is the base class of the
  exceptions of \<^verbatim>\<open>requests\<close>; the last three carry \<^verbatim>\<open>str(e)\<close>. An exception
  that is both a \<^verbatim>\<open>RequestException\<close> and a \<^verbatim>\<open>ValueError\<close> (as
  \<^verbatim>\<open>requests.exceptions.InvalidURL\<close> is) is a \<open>RequestException\<close> here: the clause
  for that class is the first to see it.
\<close>

datatype error =
    BarkClientException string "int option" "pyval option"
  | BarkNetworkException string "int option" "pyval option"
  | BarkServerException string "int option" "pyval option"
  | AttributeError
  | ValueError string
  | TypeError string
  | RequestException string

subsection \<open>The client\<close>

record bark_notification =
  key :: string
  server_url :: string
  base_url :: string

definition DEFAULT_SERVER :: string where
  "DEFAULT_SERVER = ''https://api.day.app''"

text \<open>
  \<^verbatim>\<open>__init__(self, key, server_url=None)\<close>. \<^verbatim>\<open>not key\<close> holds of \<^verbatim>\<open>None\<close> and of
  the empty string; \<^verbatim>\<open>server_url or DEFAULT_SERVER\<close> takes the default for both, too.
\<close>

definition init :: "string option \<Rightarrow> string option \<Rightarrow> error + bark_notification" where
  "init k url =
     (if \<not> truthy k then Inl (BarkClientException ''Bark key cannot be empty'' None None)
      else
        let server = (if truthy url then text_of url else DEFAULT_SERVER)
        in Inr \<lparr>key = text_of k, server_url = server, base_url = server @ ''/'' @ text_of k\<rparr>)"

text \<open>
  \<^verbatim>\<open>_build_endpoint(self, body, title=None, subtitle=None)\<close>. On the strings
  represented here \<^verbatim>\<open>quote\<close> does not raise, so the \<^verbatim>\<open>except Exception\<close> clause
  of the source has no case in the model.
\<close>

definition build_endpoint ::
  "bark_notification \<Rightarrow> string \<Rightarrow> string option \<Rightarrow> string option \<Rightarrow> string" where
  "build_endpoint self body title subtitle =
     (if truthy title \<and> truthy subtitle then
        base_url self @ ''/'' @ quote (text_of title) @ ''/'' @ quote (text_of subtitle)
          @ ''/'' @ quote body
      else if truthy title then
        base_url self @ ''/'' @ quote (text_of title) @ ''/'' @ quote body
      else base_url self @ ''/'' @ quote body)"

subsection \<open>Responses\<close>

text \<open>
  What the source reads of a \<^verbatim>\<open>requests.Response\<close>: \<^verbatim>\<open>status_code\<close>, \<^verbatim>\<open>text\<close>
  and the outcome of \<^verbatim>\<open>json()\<close>, where \<open>None\<close> stands for \<^verbatim>\<open>json.JSONDecodeError\<close>.
\<close>

record http_response =
  status_code :: int
  resp_text :: string
  resp_json :: "pyval option"

text \<open>
  \<^verbatim>\<open>_handle_response(self, response)\<close>; \<^verbatim>\<open>self\<close> is not used by the source. A JSON
  document that is not an object has no method \<^verbatim>\<open>get\<close>: Python raises
  \<^verbatim>\<open>AttributeError\<close>, which no clause of the source catches.
\<close>

definition handle_response :: "(pyval \<Rightarrow> string) \<Rightarrow> http_response \<Rightarrow> error + pyval" where
  "handle_response fmt response =
     (if status_code response \<noteq> 200 then
        Inl (BarkServerException (''Server returned error: '' @ resp_text response)
               (Some (status_code response)) None)
      else
        (case resp_json response of
           None \<Rightarrow>
             Inl (BarkServerException (''Invalid JSON response: '' @ resp_text response)
                    (Some (status_code response)) None)
         | Some (PDict d) \<Rightarrow>
             if \<not> py_eq_int (dict_get d ''code'') 200 then
               Inl (BarkServerException
                      (''API error: ''
                         @ format_value fmt (dict_get_default d ''message'' (PStr ''Unknown error'')))
                      (Some (status_code response)) (Some (PDict d)))
             else Inr (PDict d)
         | Some _ \<Rightarrow> Inl AttributeError))"

subsection \<open>Requests and sessions\<close>

text \<open>
  \<^verbatim>\<open>requests.get(url, params=..., timeout=...)\<close> and
  \<^verbatim>\<open>requests.post(url, json=..., timeout=...)\<close>.
\<close>

datatype http_request =
    GET string "(string \<times> pyval) list" nat
  | POST string "(string \<times> pyval) list" nat

type_synonym network = "http_request list \<Rightarrow> http_request \<Rightarrow> error + http_response"

text \<open>The state a method call can touch: the client object and the requests issued so far.\<close>

record session =
  client :: bark_notification
  issued :: "http_request list"

text \<open>The arguments of \<^verbatim>\<open>send\<close>.\<close>

record notification =
  body :: string
  title :: "string option"
  subtitle :: "string option"
  url :: "string option"
  group :: "string option"
  icon :: "string option"
  sound :: "string option"
  call :: "bool option"
  level :: "string option"
  is_archive :: "bool option"
  copy :: "string option"
  ciphertext :: "string option"

definition allowed_levels :: "string list" where
  "allowed_levels = [''active'', ''timeSensitive'', ''passive'', ''critical'']"

text \<open>\<^verbatim>\<open>if c: d[k] = v\<close>.\<close>

definition set_if :: "bool \<Rightarrow> string \<Rightarrow> pyval \<Rightarrow> (string \<times> pyval) list \<Rightarrow> (string \<times> pyval) list" where
  "set_if c k v d = (if c then AList.update k v d else d)"

text \<open>The block of \<^verbatim>\<open>send\<close> that fills \<^verbatim>\<open>params\<close> (lines 114 to 132), in its order.\<close>

definition send_params :: "notification \<Rightarrow> (string \<times> pyval) list" where
  "send_params r =
     (set_if (truthy (ciphertext r)) ''ciphertext'' (PStr (text_of (ciphertext r)))
     (set_if (truthy (copy r)) ''copy'' (PStr (text_of (copy r)))
     (set_if (is_archive r \<noteq> None) ''isArchive'' (PInt (if truthy_bool (is_archive r) then 1 else 0))
     (set_if (truthy (level r)) ''level'' (PStr (text_of (level r)))
     (set_if (truthy_bool (call r)) ''call'' (PInt (if truthy_bool (call r) then 1 else 0))
     (set_if (truthy (sound r)) ''sound'' (PStr (text_of (sound r)))
     (set_if (truthy (icon r)) ''icon'' (PStr (text_of (icon r)))
     (set_if (truthy (group r)) ''group'' (PStr (text_of (group r)))
     (set_if (truthy (url r)) ''url'' (PStr (text_of (url r))) [])))))))))"

text \<open>The clause \<^verbatim>\<open>except (ValueError, TypeError) as e\<close> around the body of both methods.\<close>

definition catch_invalid_parameter :: "error + pyval \<Rightarrow> error + pyval" where
  "catch_invalid_parameter res =
     (case res of
        Inl (ValueError m) \<Rightarrow> Inl (BarkClientException (''Invalid parameter: '' @ m) None None)
      | Inl (TypeError m) \<Rightarrow> Inl (BarkClientException (''Invalid parameter: '' @ m) None None)
      | _ \<Rightarrow> res)"

text \<open>
  The common end of both methods (lines 135 to 141 and 193 to 199): the request is
  issued with \<^verbatim>\<open>requests\<close>. A \<^verbatim>\<open>RequestException\<close> of the transport becomes a
  \<^verbatim>\<open>BarkNetworkException\<close> with its text; any other exception of the transport
  passes the inner clause and reaches the outer one, which turns a \<^verbatim>\<open>ValueError\<close>
  and a \<^verbatim>\<open>TypeError\<close> into a \<^verbatim>\<open>BarkClientException\<close>. An answer goes to
  \<^verbatim>\<open>_handle_response\<close>, whose exceptions reach the outer clause as well.
\<close>

definition perform ::
  "(pyval \<Rightarrow> string) \<Rightarrow> network \<Rightarrow> http_request \<Rightarrow> session \<Rightarrow> (error + pyval) \<times> session" where
  "perform fmt net rq s =
     (catch_invalid_parameter
        (case net (issued s) rq of
           Inl (RequestException e) \<Rightarrow>
             Inl (BarkNetworkException (''Network error: '' @ e) None None)
         | Inl e \<Rightarrow> Inl e
         | Inr response \<Rightarrow> handle_response fmt response),
      s\<lparr>issued := issued s @ [rq]\<rparr>)"

definition send ::
  "(pyval \<Rightarrow> string) \<Rightarrow> network \<Rightarrow> notification \<Rightarrow> session \<Rightarrow> (error + pyval) \<times> session" where
  "send fmt net r s =
     (if body r = [] then
        (Inl (BarkClientException ''Notification body cannot be empty'' None None), s)
      else if truthy (level r) \<and> text_of (level r) \<notin> set allowed_levels then
        (Inl (BarkClientException
                ''Invalid level value. Must be one of: active, timeSensitive, passive, critical''
                None None), s)
      else
        perform fmt net
          (GET (build_endpoint (client s) (body r) (title r) (subtitle r)) (send_params r) 10) s)"

text \<open>\<^verbatim>\<open>kwargs['level'] not in [...]\<close>: membership in a list of strings compares with \<^verbatim>\<open>==\<close>.\<close>

fun in_allowed_levels :: "pyval \<Rightarrow> bool" where
  "in_allowed_levels (PStr l) = (l \<in> set allowed_levels)"
| "in_allowed_levels v = False"

text \<open>
  \<^verbatim>\<open>send_post(self, body, title=None, subtitle=None, **kwargs)\<close>; \<open>kwargs\<close> is the dict
  of the further keyword arguments, in the order they were given.
\<close>

definition send_post_data ::
  "string \<Rightarrow> string option \<Rightarrow> string option \<Rightarrow> (string \<times> pyval) list \<Rightarrow> (string \<times> pyval) list" where
  "send_post_data b t st kwargs =
     fold (\<lambda>(k, v). AList.update k v) kwargs
       (set_if (truthy st) ''subtitle'' (PStr (text_of st))
       (set_if (truthy t) ''title'' (PStr (text_of t))
          [(''body'', PStr b)]))"

definition send_post ::
  "(pyval \<Rightarrow> string) \<Rightarrow> network \<Rightarrow> string \<Rightarrow> string option \<Rightarrow> string option \<Rightarrow>
     (string \<times> pyval) list \<Rightarrow> session \<Rightarrow> (error + pyval) \<times> session" where
  "send_post fmt net b t st kwargs s =
     (if b = [] then
        (Inl (BarkClientException ''Notification body cannot be empty'' None None), s)
      else if (case map_of kwargs ''level'' of None \<Rightarrow> False | Some v \<Rightarrow> \<not> in_allowed_levels v) then
        (Inl (BarkClientException
                ''Invalid level value. Must be one of: active, timeSensitive, passive, critical''
                None None), s)
      else perform fmt net (POST (base_url (client s)) (send_post_data b t st kwargs) 10) s)"

subsection \<open>Concrete inputs\<close>

text \<open>
  The defaults of the keyword parameters of \<^verbatim>\<open>send\<close> (every optional argument is
  \<^verbatim>\<open>None\<close>), and the client that \<^verbatim>\<open>BarkNotification(key="K")\<close> constructs.
\<close>

definition defaults :: "string \<Rightarrow> notification" where
  "defaults b =
     \<lparr>body = b, title = None, subtitle = None, url = None, group = None, icon = None,
      sound = None, call = None, level = None, is_archive = None, copy = None,
      ciphertext = None\<rparr>"

definition example_client :: bark_notification where
  "example_client =
     \<lparr>key = ''K'', server_url = ''https://api.day.app'', base_url = ''https://api.day.app/K''\<rparr>"

section \<open>Properties\<close>

subsection \<open>Auxiliary facts\<close>

lemmas quote_simps = quote_def quote_from_bytes_def quote_byte_def always_safe_def hex_digit_def

lemmas option_simps = truthy_def truthy_bool_def text_of_def

lemma quote_append: "quote (xs @ ys) = quote xs @ quote ys"
  by (simp add: quote_def quote_from_bytes_def)

lemma quote_slash: "quote (xs @ ''/'' @ ys) = quote xs @ ''/'' @ quote ys"
  by (simp add: quote_simps)

text \<open>
  What \<^verbatim>\<open>quote\<close> writes: only letters, digits, \<^verbatim>\<open>_.-~\<close>, the slash and the
  percent sign. Every other byte, so every reserved character but the slash, is escaped.
\<close>

lemma hex_digit_safe: "hex_digit n \<in> set always_safe"
proof -
  have "n mod 16 < length ''0123456789ABCDEF''" by simp
  then have "hex_digit n \<in> set ''0123456789ABCDEF''"
    unfolding hex_digit_def by (rule nth_mem)
  then show ?thesis by (auto simp: always_safe_def)
qed

lemma quote_byte_chars:
  "set (quote_byte safe c) \<subseteq> set always_safe \<union> set safe \<union> {CHR ''%''}"
  by (auto simp: quote_byte_def hex_digit_safe)

lemma quote_chars: "set (quote s) \<subseteq> set always_safe \<union> {CHR ''/'', CHR ''%''}"
  using quote_byte_chars [of "''/''"] by (auto simp: quote_def quote_from_bytes_def)

lemma quote_escapes:
  "c \<notin> set always_safe \<Longrightarrow> c \<noteq> CHR ''/'' \<Longrightarrow>
     quote [c] = [CHR ''%'', hex_digit (of_char c div 16), hex_digit (of_char c)]"
  by (simp add: quote_def quote_from_bytes_def quote_byte_def)

lemma perform_client: "client (snd (perform fmt net rq s)) = client s"
  by (simp add: perform_def)

lemma perform_issued: "issued (snd (perform fmt net rq s)) = issued s @ [rq]"
  by (simp add: perform_def)

text \<open>What a call returns, by what the transport does.\<close>

lemma perform_request_exception:
  "net (issued s) rq = Inl (RequestException e) \<Longrightarrow>
     fst (perform fmt net rq s) = Inl (BarkNetworkException (''Network error: '' @ e) None None)"
  by (simp add: perform_def catch_invalid_parameter_def)

lemma perform_value_error:
  "net (issued s) rq = Inl (ValueError e) \<Longrightarrow>
     fst (perform fmt net rq s) = Inl (BarkClientException (''Invalid parameter: '' @ e) None None)"
  by (simp add: perform_def catch_invalid_parameter_def)

lemma perform_type_error:
  "net (issued s) rq = Inl (TypeError e) \<Longrightarrow>
     fst (perform fmt net rq s) = Inl (BarkClientException (''Invalid parameter: '' @ e) None None)"
  by (simp add: perform_def catch_invalid_parameter_def)

lemma perform_response:
  "net (issued s) rq = Inr response \<Longrightarrow>
     fst (perform fmt net rq s) = catch_invalid_parameter (handle_response fmt response)"
  by (simp add: perform_def)

lemma send_client: "client (snd (send fmt net r s)) = client s"
  by (simp add: send_def perform_client)

lemma send_post_client: "client (snd (send_post fmt net b t st kw s)) = client s"
  by (simp add: send_post_def perform_client)

text \<open>
  Which calls reach the network: \<^verbatim>\<open>send\<close> issues its request unless the body is empty
  or a non-empty level is not one of the four; \<^verbatim>\<open>send_post\<close> unless the body is empty
  or \<^verbatim>\<open>level\<close> is among the keyword arguments with a value that is not one of the four
  strings.
\<close>

lemma send_issued:
  "issued (snd (send fmt net r s)) =
     (if body r = [] \<or> (truthy (level r) \<and> text_of (level r) \<notin> set allowed_levels)
      then issued s
      else issued s @
        [GET (build_endpoint (client s) (body r) (title r) (subtitle r)) (send_params r) 10])"
  by (simp add: send_def perform_issued)

lemma send_post_issued:
  "issued (snd (send_post fmt net b t st kw s)) =
     (if b = [] \<or> (case map_of kw ''level'' of None \<Rightarrow> False | Some v \<Rightarrow> \<not> in_allowed_levels v)
      then issued s
      else issued s @ [POST (base_url (client s)) (send_post_data b t st kw) 10])"
  by (simp add: send_post_def perform_issued)

lemma keys_set_if:
  "k' \<noteq> k \<Longrightarrow> k' \<in> fst ` set (set_if c k v d) \<longleftrightarrow> k' \<in> fst ` set d"
  by (simp add: set_if_def dom_update)

text \<open>
  A JSON document that is not an object (a list, a number, a string, \<^verbatim>\<open>null\<close>) makes
  the handler raise Python's \<^verbatim>\<open>AttributeError\<close>.
\<close>

lemma handle_response_not_object:
  assumes "status_code response = 200" and "resp_json response = Some v"
    and "\<forall>d. v \<noteq> PDict d"
  shows "handle_response fmt response = Inl AttributeError"
  using assms by (cases v) (simp_all add: handle_response_def)

lemma defaults_fields:
  "body (defaults b) = b" "title (defaults b) = None" "subtitle (defaults b) = None"
  "url (defaults b) = None" "group (defaults b) = None" "icon (defaults b) = None"
  "sound (defaults b) = None" "call (defaults b) = None" "level (defaults b) = None"
  "is_archive (defaults b) = None" "copy (defaults b) = None" "ciphertext (defaults b) = None"
  by (simp_all add: defaults_def)

subsection \<open>Percent-encoding of the path segments\<close>

text \<open>
  Claim C1: the path segments that \<^verbatim>\<open>send\<close> builds are percent-encoded so that every
  reserved character, the slash included, is escaped: the title \<^verbatim>\<open>A B\<close> gives the
  segment \<^verbatim>\<open>A%20B\<close> and the subtitle \<^verbatim>\<open>C/D\<close> gives \<^verbatim>\<open>C%2FD\<close>.

  The code escapes the space but not the slash: \<^verbatim>\<open>quote\<close> is called with its default
  \<^verbatim>\<open>safe='/'\<close>, so the subtitle \<^verbatim>\<open>C/D\<close> is written as it is and the endpoint
  has four segments after the key instead of three.
\<close>

theorem build_endpoint_keeps_slash:
  "quote ''A B'' = ''A%20B'' \<and> quote ''C/D'' = ''C/D'' \<and>
   build_endpoint example_client ''E'' (Some ''A B'') (Some ''C/D'') =
     ''https://api.day.app/K/A%20B/C/D/E''"
  by (simp add: build_endpoint_def example_client_def option_simps quote_simps)

subsection \<open>The boolean parameters\<close>

text \<open>
  Claim C2: \<^verbatim>\<open>send\<close> writes both boolean fields as the integers 1 and 0, and treats
  \<^verbatim>\<open>call=False\<close> as it treats \<^verbatim>\<open>is_archive=False\<close>: both left out or both sent
  as 0.

  The code sends \<^verbatim>\<open>call=1\<close> and \<^verbatim>\<open>isArchive=1\<close> for \<^verbatim>\<open>True\<close>, but for
  \<^verbatim>\<open>False\<close> it leaves \<^verbatim>\<open>call\<close> out (the guard is \<^verbatim>\<open>if call:\<close>, which makes the
  \<^verbatim>\<open>else 0\<close> of the assignment unreachable) and sends \<^verbatim>\<open>isArchive=0\<close> (the guard
  is \<^verbatim>\<open>is_archive is not None\<close>).
\<close>

theorem send_params_booleans:
  "send_params ((defaults ''x'')\<lparr>call := Some True, is_archive := Some True\<rparr>) =
     [(''call'', PInt 1), (''isArchive'', PInt 1)] \<and>
   send_params ((defaults ''x'')\<lparr>call := Some False, is_archive := Some False\<rparr>) =
     [(''isArchive'', PInt 0)]"
  by (simp add: send_params_def defaults_fields set_if_def option_simps)

subsection \<open>Validation in send\_post\<close>

text \<open>
  Claim C3: \<^verbatim>\<open>send_post\<close> validates body and level as \<^verbatim>\<open>send\<close> does, and both accept
  and reject the same combinations, also when the level is absent, \<^verbatim>\<open>None\<close> or the
  empty string.

  The code differs on the last two: \<^verbatim>\<open>send_post\<close> with \<^verbatim>\<open>level=None\<close> or
  \<^verbatim>\<open>level=""\<close> raises \<^verbatim>\<open>BarkClientException\<close> and issues no request, while
  \<^verbatim>\<open>send\<close> with the same body and level issues its request.
\<close>

theorem send_post_level_null_or_empty:
  "send_post fmt net ''hi'' None None [(''level'', PNone)] s =
     (Inl (BarkClientException
             ''Invalid level value. Must be one of: active, timeSensitive, passive, critical''
             None None), s) \<and>
   send_post fmt net ''hi'' None None [(''level'', PStr [])] s =
     (Inl (BarkClientException
             ''Invalid level value. Must be one of: active, timeSensitive, passive, critical''
             None None), s) \<and>
   issued (snd (send fmt net ((defaults ''hi'')\<lparr>level := None\<rparr>) s)) =
     issued s @ [GET (base_url (client s) @ ''/hi'') [] 10] \<and>
   issued (snd (send fmt net ((defaults ''hi'')\<lparr>level := Some []\<rparr>) s)) =
     issued s @ [GET (base_url (client s) @ ''/hi'') [] 10]"
  by (simp add: send_post_def send_issued defaults_fields option_simps allowed_levels_def
      build_endpoint_def send_params_def set_if_def quote_simps)

subsection \<open>Order of the path segments\<close>



subsection \<open>Responses that are not a success\<close>

text \<open>
  Claim C5: for a response whose status is not 200, and for a response of status 200
  whose text does not parse as JSON, the handler raises \<^verbatim>\<open>BarkServerException\<close> with
  that status code and with the raw text of the response in its message, and returns
  no result.
\<close>

theorem handle_response_failure:
  assumes "status_code response \<noteq> 200 \<or> resp_json response = None"
  shows "handle_response fmt response =
           Inl (BarkServerException
                  ((if status_code response \<noteq> 200 then ''Server returned error: ''
                    else ''Invalid JSON response: '') @ resp_text response)
                  (Some (status_code response)) None)
         \<and> (\<forall>v. handle_response fmt response \<noteq> Inr v)"
  using assms by (auto simp: handle_response_def)

theorem handle_response_failure_witness:
  "handle_response (\<lambda>v. []) \<lparr>status_code = 500, resp_text = ''oops'', resp_json = Some (PDict [])\<rparr> =
     Inl (BarkServerException ''Server returned error: oops'' (Some 500) None) \<and>
   handle_response (\<lambda>v. []) \<lparr>status_code = 200, resp_text = ''<html>'', resp_json = None\<rparr> =
     Inl (BarkServerException ''Invalid JSON response: <html>'' (Some 200) None)"
  using handle_response_failure
      [of "\<lparr>status_code = 500, resp_text = ''oops'', resp_json = Some (PDict [])\<rparr>" "\<lambda>v. []"]
    handle_response_failure
      [of "\<lparr>status_code = 200, resp_text = ''<html>'', resp_json = None\<rparr>" "\<lambda>v. []"]
  by simp

subsection \<open>Responses that parse\<close>

text \<open>
  For a response of status 200 whose text parses to a JSON object, the handler returns
  the object unchanged when its \<^verbatim>\<open>code\<close> equals 200; otherwise it raises
  \<^verbatim>\<open>BarkServerException\<close> with the status code, with the \<^verbatim>\<open>message\<close> field of
  the object in its message (\<^verbatim>\<open>Unknown error\<close> when the object has none) and with the
  object attached. A missing \<^verbatim>\<open>code\<close> reads as \<^verbatim>\<open>None\<close>, which is not 200.
\<close>

lemma handle_response_object:
  assumes "status_code response = 200" and "resp_json response = Some (PDict d)"
  shows "handle_response fmt response =
     (if py_eq_int (dict_get d ''code'') 200 then Inr (PDict d)
      else Inl (BarkServerException
                  (''API error: '' @ (case map_of d ''message'' of None \<Rightarrow> ''Unknown error''
                                      | Some m \<Rightarrow> format_value fmt m))
                  (Some 200) (Some (PDict d))))"
  using assms
  by (simp add: handle_response_def dict_get_default_def format_value_def split: option.splits)

lemma handle_response_object_examples:
  "handle_response (\<lambda>v. [])
     \<lparr>status_code = 200, resp_text = ''{\"code\":200,\"message\":\"ok\"}'',
      resp_json = Some (PDict [(''code'', PInt 200), (''message'', PStr ''ok'')])\<rparr> =
     Inr (PDict [(''code'', PInt 200), (''message'', PStr ''ok'')]) \<and>
   handle_response (\<lambda>v. [])
     \<lparr>status_code = 200, resp_text = ''{\"code\":400,\"message\":\"bad key\"}'',
      resp_json = Some (PDict [(''code'', PInt 400), (''message'', PStr ''bad key'')])\<rparr> =
     Inl (BarkServerException ''API error: bad key'' (Some 200)
            (Some (PDict [(''code'', PInt 400), (''message'', PStr ''bad key'')]))) \<and>
   handle_response (\<lambda>v. [])
     \<lparr>status_code = 200, resp_text = ''{}'', resp_json = Some (PDict [])\<rparr> =
     Inl (BarkServerException ''API error: Unknown error'' (Some 200) (Some (PDict [])))"
  using handle_response_object
      [of "\<lparr>status_code = 200, resp_text = ''{\"code\":200,\"message\":\"ok\"}'',
            resp_json = Some (PDict [(''code'', PInt 200), (''message'', PStr ''ok'')])\<rparr>"
          "[(''code'', PInt 200), (''message'', PStr ''ok'')]" "\<lambda>v. []"]
    handle_response_object
      [of "\<lparr>status_code = 200, resp_text = ''{\"code\":400,\"message\":\"bad key\"}'',
            resp_json = Some (PDict [(''code'', PInt 400), (''message'', PStr ''bad key'')])\<rparr>"
          "[(''code'', PInt 400), (''message'', PStr ''bad key'')]" "\<lambda>v. []"]
    handle_response_object
      [of "\<lparr>status_code = 200, resp_text = ''{}'', resp_json = Some (PDict [])\<rparr>" "[]" "\<lambda>v. []"]
  by (simp add: dict_get_def dict_get_default_def format_value_def)

text \<open>
  Claim C6: for every response of status 200 that parses as JSON, the handler raises
  \<^verbatim>\<open>BarkServerException\<close> (with the status, the message and the parsed body) when
  the \<^verbatim>\<open>code\<close> field is not 200, and returns the parsed body when it is.

  The code does so when the document is a JSON object (\<open>handle_response_object\<close>). A
  document that parses but is not an object, such as the list \<^verbatim>\<open>[1]\<close>, has no method
  \<^verbatim>\<open>get\<close>: the handler raises Python's \<^verbatim>\<open>AttributeError\<close>, which is neither a
  \<^verbatim>\<open>BarkServerException\<close> nor a result, and neither \<^verbatim>\<open>send\<close> nor
  \<^verbatim>\<open>send_post\<close> catches it, although their docstrings name the three exceptions of
  the client as the ones raised.
\<close>

theorem handle_response_list_raises_attribute_error:
  "handle_response fmt
     \<lparr>status_code = 200, resp_text = ''[1]'', resp_json = Some (PList [PInt 1])\<rparr> =
     Inl AttributeError \<and>
   fst (send fmt
          (\<lambda>h q. Inr \<lparr>status_code = 200, resp_text = ''[1]'', resp_json = Some (PList [PInt 1])\<rparr>)
          (defaults ''hi'') s) = Inl AttributeError \<and>
   fst (send_post fmt
          (\<lambda>h q. Inr \<lparr>status_code = 200, resp_text = ''[1]'', resp_json = Some (PList [PInt 1])\<rparr>)
          ''hi'' None None [] s) = Inl AttributeError"
  by (simp add: handle_response_def send_def send_post_def perform_def catch_invalid_parameter_def
      defaults_fields option_simps)

subsection \<open>Construction\<close>

text \<open>
  Claim C7: constructing a client with an absent (\<^verbatim>\<open>None\<close>) or empty key raises
  \<^verbatim>\<open>BarkClientException\<close>. With a non-empty key the construction succeeds, the base
  address of the client is the server address (the given one, or the default when none
  or an empty one is given), a slash and the key, and no call of \<^verbatim>\<open>send\<close> or
  \<^verbatim>\<open>send_post\<close> changes the client.
\<close>

theorem init_key:
  "(k = None \<or> k = Some [] \<longrightarrow>
      init k u = Inl (BarkClientException ''Bark key cannot be empty'' None None)) \<and>
   (\<forall>k'. k = Some k' \<and> k' \<noteq> [] \<longrightarrow>
      (\<exists>c. init k u = Inr c \<and> key c = k' \<and>
           server_url c = (if u = None \<or> u = Some [] then DEFAULT_SERVER else text_of u) \<and>
           base_url c = server_url c @ ''/'' @ k' \<and>
           (\<forall>fmt net r s. client s = c \<longrightarrow> client (snd (send fmt net r s)) = c) \<and>
           (\<forall>fmt net b t st kw s. client s = c \<longrightarrow>
              client (snd (send_post fmt net b t st kw s)) = c)))"
  by (auto simp: init_def truthy_def text_of_def Let_def send_client send_post_client
      split: option.splits)

theorem init_key_witness:
  "init None None = Inl (BarkClientException ''Bark key cannot be empty'' None None) \<and>
   init (Some []) (Some ''http://localhost:8080'') =
     Inl (BarkClientException ''Bark key cannot be empty'' None None) \<and>
   init (Some ''K'') None = Inr example_client \<and>
   (\<exists>c. init (Some ''K'') (Some ''http://localhost:8080'') = Inr c \<and>
        base_url c = ''http://localhost:8080/K'')"
proof -
  have 1: "init None None = Inl (BarkClientException ''Bark key cannot be empty'' None None)"
    using init_key [of None None] by simp
  have 2: "init (Some []) (Some ''http://localhost:8080'') =
      Inl (BarkClientException ''Bark key cannot be empty'' None None)"
    using init_key [of "Some []" "Some ''http://localhost:8080''"] by simp
  have 3: "init (Some ''K'') None = Inr example_client"
    using init_key [of "Some ''K''" None]
    by (auto simp: DEFAULT_SERVER_def example_client_def)
  have 4: "\<exists>c. init (Some ''K'') (Some ''http://localhost:8080'') = Inr c \<and>
        base_url c = ''http://localhost:8080/K''"
    using init_key [of "Some ''K''" "Some ''http://localhost:8080''"]
    by (auto simp: text_of_def)
  from 1 2 3 4 show ?thesis by blast
qed

subsection \<open>Empty body\<close>

text \<open>
  Claim C8: whatever the other arguments are, \<^verbatim>\<open>send\<close> with an empty body raises
  \<^verbatim>\<open>BarkClientException\<close>, and it does so before the network is used: the session
  is returned as it was, with no request issued, whatever the network would answer.
\<close>

theorem send_empty_body:
  "send fmt net (r\<lparr>body := []\<rparr>) s =
     (Inl (BarkClientException ''Notification body cannot be empty'' None None), s)"
  by (simp add: send_def)

theorem send_empty_body_witness:
  "send (\<lambda>v. []) (\<lambda>h q. Inl (RequestException ''down''))
     ((defaults ''x'')\<lparr>title := Some ''T'', level := Some ''urgent'', call := Some True, body := []\<rparr>)
     \<lparr>client = example_client, issued = []\<rparr> =
   (Inl (BarkClientException ''Notification body cannot be empty'' None None),
    \<lparr>client = example_client, issued = []\<rparr>)"
  using send_empty_body
    [of "\<lambda>v. []" "\<lambda>h q. Inl (RequestException ''down'')"
        "(defaults ''x'')\<lparr>title := Some ''T'', level := Some ''urgent'', call := Some True\<rparr>"
        "\<lparr>client = example_client, issued = []\<rparr>"]
  by simp

subsection \<open>The client is not modified\<close>

text \<open>
  Claim C9: no call of \<^verbatim>\<open>send\<close> or \<^verbatim>\<open>send_post\<close> changes a field of the client,
  whatever the arguments, the network and the outcome are; a call repeated with the same
  arguments issues the same requests again.
\<close>

theorem client_immutable:
  "client (snd (send fmt net r s)) = client s \<and>
   client (snd (send_post fmt net b t st kw s)) = client s \<and>
   (\<exists>qs. issued (snd (send fmt net r s)) = issued s @ qs \<and>
         issued (snd (send fmt net r (snd (send fmt net r s)))) = issued s @ qs @ qs) \<and>
   (\<exists>qs. issued (snd (send_post fmt net b t st kw s)) = issued s @ qs \<and>
         issued (snd (send_post fmt net b t st kw (snd (send_post fmt net b t st kw s)))) =
           issued s @ qs @ qs)"
  by (simp add: send_client send_post_client send_issued send_post_issued)

theorem client_immutable_witness:
  "client (snd (send (\<lambda>v. []) (\<lambda>h q. Inl (RequestException ''down'')) (defaults ''x'')
      \<lparr>client = example_client, issued = []\<rparr>)) = example_client \<and>
   client (snd (send_post (\<lambda>v. []) (\<lambda>h q. Inl (RequestException ''down'')) ''x'' None None []
      \<lparr>client = example_client, issued = []\<rparr>)) = example_client"
  using client_immutable
    [of "\<lambda>v. []" "\<lambda>h q. Inl (RequestException ''down'')" "defaults ''x''" "\<lparr>client = example_client, issued = []\<rparr>"
        "''x''" None None "[]"]
  by simp

subsection \<open>A subtitle without a title\<close>

text \<open>
  Claim C10: when the title is absent or empty, \<^verbatim>\<open>send\<close> drops the subtitle: the call
  behaves as the call without a subtitle does, the endpoint is the base address followed
  by the encoded body, and the query parameters do not depend on the subtitle and have
  no key \<^verbatim>\<open>subtitle\<close>.
\<close>

theorem subtitle_discarded:
  assumes "title r = None \<or> title r = Some []"
  shows "send fmt net (r\<lparr>subtitle := st\<rparr>) s = send fmt net (r\<lparr>subtitle := None\<rparr>) s \<and>
         build_endpoint (client s) (body r) (title r) st =
           base_url (client s) @ ''/'' @ quote (body r) \<and>
         send_params (r\<lparr>subtitle := st\<rparr>) = send_params r \<and>
         ''subtitle'' \<notin> fst ` set (send_params (r\<lparr>subtitle := st\<rparr>))"
  using assms
  by (auto simp: send_def build_endpoint_def truthy_def send_params_def keys_set_if)

theorem subtitle_discarded_witness:
  "send (\<lambda>v. []) (\<lambda>h q. Inl (RequestException ''down'')) ((defaults ''E'')\<lparr>subtitle := Some ''S''\<rparr>)
      \<lparr>client = example_client, issued = []\<rparr> =
   send (\<lambda>v. []) (\<lambda>h q. Inl (RequestException ''down'')) (defaults ''E'') \<lparr>client = example_client, issued = []\<rparr> \<and>
   build_endpoint example_client ''E'' None (Some ''S'') = ''https://api.day.app/K/E'' \<and>
   send_params ((defaults ''E'')\<lparr>subtitle := Some ''S''\<rparr>) = []"
proof -
  let ?r = "defaults ''E''"
  let ?s = "\<lparr>client = example_client, issued = []\<rparr>"
  have t: "title ?r = None \<or> title ?r = Some []"
    by (simp add: defaults_fields)
  have d: "?r\<lparr>subtitle := None\<rparr> = ?r"
    by (simp add: defaults_def)
  have p: "send_params ?r = []"
    by (simp add: send_params_def set_if_def option_simps defaults_fields)
  have q: "quote ''E'' = ''E''"
    by (simp add: quote_simps)
  show ?thesis
    using subtitle_discarded [OF t, of "\<lambda>v. []" "\<lambda>h q. Inl (RequestException ''down'')" "Some ''S''" ?s]
    by (simp add: d p q defaults_fields example_client_def)
qed

end
